theory Spec2Isabelle
  imports Main "HOL-Library.Word"
begin

unbundle bit_operations_syntax

section \<open>NetBpfLoad: the boot-time loader of the networking bpf programs\<close>

text \<open>
  A shallow embedding of \<^verbatim>\<open>netbpfload/NetBpfLoad.cpp\<close>. Every function of that file is a
  HOL function of the same name; \<^verbatim>\<open>main\<close> is given stretch by stretch, each stretch
  under a name of its own. What the process asks of the operating system (system
  calls, the bpf loader library, the kernel probes) is answered by an environment record;
  what it does to the outside is written down as a list of events, in the order in which
  the calls happen. The two pieces of process and file-system state that the program
  changes and reads back, the umask and the directories below \<^verbatim>\<open>/sys/fs/bpf\<close>, are a
  record that is passed along.
\<close>

subsection \<open>Constants of the platform headers\<close>

text \<open>\<^verbatim>\<open>errno.h\<close> of Linux.\<close>

definition ENOENT :: int where "ENOENT = 2"
definition EACCES :: int where "EACCES = 13"
definition EEXIST :: int where "EEXIST = 17"
definition EINVAL :: int where "EINVAL = 22"

text \<open>\<^verbatim>\<open>sys/stat.h\<close>: the mode bits, octal 01000, 0700, 070 and 07.\<close>

type_synonym mode_t = "32 word"

definition S_ISVTX :: mode_t where "S_ISVTX = 512"
definition S_IRWXU :: mode_t where "S_IRWXU = 448"
definition S_IRWXG :: mode_t where "S_IRWXG = 56"
definition S_IRWXO :: mode_t where "S_IRWXO = 7"

text \<open>\<^verbatim>\<open>android/api-level.h\<close>: the API levels of Android T, U and V.\<close>

definition ANDROID_API_T :: int where "ANDROID_API_T = 33"
definition ANDROID_API_U :: int where "ANDROID_API_U = 34"
definition ANDROID_API_V :: int where "ANDROID_API_V = 35"

text \<open>\<^verbatim>\<open>linux/bpf.h\<close>: the map types (the first three of the enumeration) and the update
  flag \<^verbatim>\<open>BPF_ANY\<close>; \<^verbatim>\<open>sizeof(int)\<close> is 4 on every Android ABI.\<close>

datatype bpf_map_type = BPF_MAP_TYPE_UNSPEC | BPF_MAP_TYPE_HASH | BPF_MAP_TYPE_ARRAY

definition BPF_ANY :: nat where "BPF_ANY = 0"
definition sizeof_int :: nat where "sizeof_int = 4"

subsection \<open>Paths and the table of locations\<close>

record location =
  dir :: string
  prefix :: string

definition locations :: "location list" where
  "locations =
     [\<lparr>dir = ''/apex/com.android.tethering/etc/bpf/'', prefix = ''tethering/''\<rparr>,
      \<lparr>dir = ''/apex/com.android.tethering/etc/bpf/netd_shared/'', prefix = ''netd_shared/''\<rparr>,
      \<lparr>dir = ''/apex/com.android.tethering/etc/bpf/netd_readonly/'', prefix = ''netd_readonly/''\<rparr>,
      \<lparr>dir = ''/apex/com.android.tethering/etc/bpf/net_shared/'', prefix = ''net_shared/''\<rparr>,
      \<lparr>dir = ''/apex/com.android.tethering/etc/bpf/net_private/'', prefix = ''net_private/''\<rparr>]"

definition APEX_MOUNT_POINT :: string where
  "APEX_MOUNT_POINT = ''/apex/com.android.tethering''"

definition platformBpfLoader :: string where
  "platformBpfLoader = ''/system/bin/bpfloader''"

definition platformNetBpfLoad :: string where
  "platformNetBpfLoad = ''/system/bin/netbpfload''"

definition apexNetBpfLoad :: string where
  "apexNetBpfLoad = APEX_MOUNT_POINT @ ''/bin/netbpfload''"

subsection \<open>Events, exit status and the environment\<close>

text \<open>
  A log line is recorded with its priority (\<^verbatim>\<open>ALOGD\<close>, \<^verbatim>\<open>ALOGI\<close>, \<^verbatim>\<open>ALOGW\<close>,
  \<^verbatim>\<open>ALOGE\<close>) and its format string; the formatted arguments are not rendered. The other
  events are the calls that leave the process, with the arguments they are given.
\<close>

datatype priority = DEBUG | INFO | WARN | ERROR

datatype event =
    Log priority string
  | Access string
  | Execve string
  | Open string
  | Write string string
  | Umask mode_t
  | Mkdir string mode_t
  | Opendir string
  | LoadProg string
  | Sleep nat
  | CreateMap bpf_map_type nat nat nat nat
  | WriteToMapEntry int int int nat

text \<open>
  How a stretch of \<^verbatim>\<open>main\<close> ends: it falls through to the next statement
  (\<open>Running\<close>), returns an exit code, calls \<^verbatim>\<open>abort\<close>, or a successful
  \<^verbatim>\<open>execve\<close> has replaced the process image.
\<close>

datatype status = Running | Exited int | Aborted | Replaced string

text \<open>
  The answers of the outside world. A system call that fails answers \<open>Some errno\<close> (or
  \<open>Inl errno\<close>), one that succeeds \<open>None\<close> (or \<open>Inr\<close> its value). \<open>mkdir_err\<close> is
  a refusal of \<^verbatim>\<open>mkdir\<close> that does not come from the directories the model tracks (a
  missing parent, a permission, a read-only file system). \<open>opendir\<close> answers the names
  that \<^verbatim>\<open>readdir\<close> then yields, in its order. \<open>loadProg\<close> is the loader of
  \<^verbatim>\<open>loader.h\<close>: its return value and the \<^verbatim>\<open>critical\<close> flag it sets.
  \<open>proc_mounts n\<close> is what is read after the \<open>n\<close>-th \<^verbatim>\<open>fopen\<close> of
  \<^verbatim>\<open>/proc/mounts\<close>: the buffers that the successive calls of \<^verbatim>\<open>fgets\<close> fill, each a
  line of the file or, for a line of more than 4095 bytes, one of its pieces. The predicates \<open>isX86\<close> to \<open>isUserdebug\<close> are those of
  \<^verbatim>\<open>bpf/BpfUtils.h\<close>, and \<open>kernelVersion\<close> is the running kernel's
  (major, minor, sub) triple.
\<close>

record env =
  argv0 :: string
  device_api_level :: int
  access :: "string \<Rightarrow> int option"
  execve :: "string \<Rightarrow> int option"
  sys_open :: "string \<Rightarrow> int option"
  sys_write :: "string \<Rightarrow> string \<Rightarrow> int + nat"
  mkdir_err :: "string \<Rightarrow> int option"
  opendir :: "string \<Rightarrow> string list option"
  loadProg :: "string \<Rightarrow> location \<Rightarrow> int \<times> bool"
  createMap :: "bpf_map_type \<Rightarrow> nat \<Rightarrow> nat \<Rightarrow> nat \<Rightarrow> nat \<Rightarrow> int"
  writeToMapEntry :: "int \<Rightarrow> int \<Rightarrow> int \<Rightarrow> nat \<Rightarrow> int"
  proc_mounts :: "nat \<Rightarrow> string list option"
  kernelVersion :: "nat \<times> nat \<times> nat"
  isX86 :: bool
  isKernel64Bit :: bool
  isUserspace32bit :: bool
  isEng :: bool
  isUser :: bool
  isUserdebug :: bool

text \<open>The state that \<^verbatim>\<open>createSysFsBpfSubDir\<close> changes: the process umask, and the
  directories of the bpf file system with their permission bits.\<close>

record world =
  umask :: mode_t
  dirs :: "string \<rightharpoonup> mode_t"

text \<open>
  Modelled from the spec: \<^verbatim>\<open>isAtLeastKernelVersion\<close> of \<^verbatim>\<open>bpf/BpfUtils.h\<close> is not
  among the sources. The spec speaks of a minimum kernel version triple (major, minor,
  patch) and of kernels strictly below or at or above it: the triples are compared in
  lexicographic order.
\<close>

definition isAtLeastKernelVersion :: "env \<Rightarrow> nat \<Rightarrow> nat \<Rightarrow> nat \<Rightarrow> bool" where
  "isAtLeastKernelVersion e major minor sub =
     (case kernelVersion e of (a, b, c) \<Rightarrow>
        major < a \<or> (a = major \<and> (minor < b \<or> (b = minor \<and> sub \<le> c))))"

text \<open>\<^verbatim>\<open>android::base::EndsWith\<close>.\<close>

definition EndsWith :: "string \<Rightarrow> string \<Rightarrow> bool" where
  "EndsWith s suffix =
     (length suffix \<le> length s \<and> drop (length s - length suffix) s = suffix)"

text \<open>
  The two system calls of \<^verbatim>\<open>createSysFsBpfSubDir\<close>, after Linux: \<^verbatim>\<open>umask\<close> keeps
  the permission bits of its argument and answers the previous mask; \<^verbatim>\<open>mkdir\<close> fails
  with \<open>EEXIST\<close> on a path that is there, and otherwise creates the directory with the
  requested bits that the umask does not clear.
\<close>

definition sys_umask :: "mode_t \<Rightarrow> world \<Rightarrow> mode_t \<times> world" where
  "sys_umask m w = (umask w, w\<lparr>umask := m AND 511\<rparr>)"

definition sys_mkdir :: "env \<Rightarrow> string \<Rightarrow> mode_t \<Rightarrow> world \<Rightarrow> int option \<times> world" where
  "sys_mkdir e path m w =
     (case mkdir_err e path of
        Some err \<Rightarrow> (Some err, w)
      | None \<Rightarrow>
          (if dirs w path \<noteq> None then (Some EEXIST, w)
           else (None, w\<lparr>dirs := (dirs w)(path \<mapsto> (m AND NOT (umask w)) AND 1023)\<rparr>)))"

subsection \<open>The functions of NetBpfLoad.cpp\<close>

text \<open>\<^verbatim>\<open>exists\<close>: \<open>None\<close> is the call of \<^verbatim>\<open>abort\<close>.\<close>

definition exists :: "env \<Rightarrow> string \<Rightarrow> bool option \<times> event list" where
  "exists e path =
     (case access e path of
        None \<Rightarrow> (Some True, [Access path, Log INFO ''%s exists.''])
      | Some errno \<Rightarrow>
          (if errno = ENOENT then (Some False, [Access path])
           else (None, [Access path, Log ERROR ''FATAL: access(%s, F_OK) -> %d [%d:%s]''])))"

text \<open>\<^verbatim>\<open>loadAllElfObjects\<close>: the \<^verbatim>\<open>readdir\<close> loop, with \<^verbatim>\<open>retVal\<close> as its
  accumulator, and the function around it.\<close>

fun readdir_loop :: "env \<Rightarrow> location \<Rightarrow> int \<Rightarrow> string list \<Rightarrow> int \<times> event list" where
  "readdir_loop e loc retVal [] = (retVal, [])"
| "readdir_loop e loc retVal (s # ents) =
     (if \<not> EndsWith s ''.o'' then readdir_loop e loc retVal ents
      else
        let progPath = dir loc @ s;
            (ret, critical) = loadProg e progPath loc;
            retVal' = (if ret \<noteq> 0 \<and> critical then ret else retVal);
            line = (if ret \<noteq> 0 then Log ERROR ''Failed to load object: %s, ret: %s''
                    else Log INFO ''Loaded object: %s'');
            (r, evs) = readdir_loop e loc retVal' ents
        in (r, LoadProg progPath # line # evs))"

definition loadAllElfObjects :: "env \<Rightarrow> location \<Rightarrow> int \<times> event list" where
  "loadAllElfObjects e loc =
     (case opendir e (dir loc) of
        None \<Rightarrow> (0, [Opendir (dir loc)])
      | Some ents \<Rightarrow>
          (let (retVal, evs) = readdir_loop e loc 0 ents
           in (retVal, Opendir (dir loc) # evs)))"

text \<open>\<^verbatim>\<open>createSysFsBpfSubDir\<close>. The value of \<^verbatim>\<open>errno\<close> after \<^verbatim>\<open>mkdir\<close> is the answer
  of \<open>sys_mkdir\<close>.\<close>

definition createSysFsBpfSubDir :: "env \<Rightarrow> string \<Rightarrow> world \<Rightarrow> int \<times> event list \<times> world" where
  "createSysFsBpfSubDir e p w =
     (if p \<noteq> [] then
        let (prevUmask, w1) = sys_umask 0 w;
            s = ''/sys/fs/bpf/'' @ p;
            m = S_ISVTX OR S_IRWXU OR S_IRWXG OR S_IRWXO;
            (ret, w2) = sys_mkdir e s m w1
        in (case ret of
              None \<Rightarrow> (0, [Umask 0, Mkdir s m, Umask prevUmask], snd (sys_umask prevUmask w2))
            | Some err \<Rightarrow>
                (if err \<noteq> EEXIST
                 then (- err, [Umask 0, Mkdir s m,
                                Log ERROR ''Failed to create directory: %s, ret: %s''], w2)
                 else (0, [Umask 0, Mkdir s m, Umask prevUmask],
                       snd (sys_umask prevUmask w2))))
      else (0, [], w))"

text \<open>\<^verbatim>\<open>writeProcSysFile\<close>.\<close>

definition writeProcSysFile :: "env \<Rightarrow> string \<Rightarrow> string \<Rightarrow> int \<times> event list" where
  "writeProcSysFile e filename val =
     (case sys_open e filename of
        Some err \<Rightarrow>
          (- err, [Open filename, Log ERROR ''open('%s', O_WRONLY | O_CLOEXEC) -> %s''])
      | None \<Rightarrow>
          (case sys_write e filename val of
             Inl err \<Rightarrow>
               (- err, [Open filename, Write filename val,
                        Log ERROR ''write('%s', '%s', %d) -> %s''])
           | Inr v \<Rightarrow>
               (if v \<noteq> length val
                then (- EINVAL, [Open filename, Write filename val,
                                 Log ERROR ''write('%s', '%s', %d) -> short write [%d]''])
                else (0, [Open filename, Write filename val]))))"

text \<open>\<^verbatim>\<open>logTetheringApexVersion\<close>: the first two fields of a buffer read from
  \<^verbatim>\<open>/proc/mounts\<close>, the first pass that finds the block device of the apex, and the
  second pass that logs every version mounted from it.\<close>

definition mount_fields :: "string \<Rightarrow> (string \<times> string) option" where
  "mount_fields buf =
     (if CHR '' '' \<notin> set buf then None
      else
        let blockdev = takeWhile (\<lambda>c. c \<noteq> CHR '' '') buf;
            mntpath = tl (dropWhile (\<lambda>c. c \<noteq> CHR '' '') buf)
        in if CHR '' '' \<notin> set mntpath then None
           else Some (blockdev, takeWhile (\<lambda>c. c \<noteq> CHR '' '') mntpath))"

fun find_blockdev :: "string list \<Rightarrow> string option" where
  "find_blockdev [] = None"
| "find_blockdev (buf # rest) =
     (case mount_fields buf of
        None \<Rightarrow> find_blockdev rest
      | Some (blockdev, mntpath) \<Rightarrow>
          (if mntpath \<noteq> APEX_MOUNT_POINT then find_blockdev rest else Some blockdev))"

fun version_lines :: "string \<Rightarrow> string list \<Rightarrow> event list" where
  "version_lines found_blockdev [] = []"
| "version_lines found_blockdev (buf # rest) =
     (case mount_fields buf of
        None \<Rightarrow> version_lines found_blockdev rest
      | Some (blockdev, mntpath) \<Rightarrow>
          (if blockdev \<noteq> found_blockdev then version_lines found_blockdev rest
           else if take (length (APEX_MOUNT_POINT @ ''@'')) mntpath \<noteq> APEX_MOUNT_POINT @ ''@''
           then version_lines found_blockdev rest
           else Log INFO ''Tethering APEX version %s'' # version_lines found_blockdev rest))"

definition logTetheringApexVersion :: "env \<Rightarrow> int \<times> event list" where
  "logTetheringApexVersion e =
     (case proc_mounts e 0 of
        None \<Rightarrow> (1, [])
      | Some lines1 \<Rightarrow>
          (case find_blockdev lines1 of
             None \<Rightarrow> (2, [])
           | Some found_blockdev \<Rightarrow>
               (case proc_mounts e 1 of
                  None \<Rightarrow>
                    (3, [Log DEBUG ''Found Tethering Apex mounted from blockdev %s''])
                | Some lines2 \<Rightarrow>
                    (0, Log DEBUG ''Found Tethering Apex mounted from blockdev %s''
                        # version_lines found_blockdev lines2))))"

subsection \<open>main, statement by statement\<close>

text \<open>
  \<^verbatim>\<open>main\<close> is a sequence of stretches, each of which either falls through or ends the
  process. \<open>andThen a b\<close> is \<open>a\<close> followed by \<open>b\<close>: \<open>b\<close> happens only when \<open>a\<close>
  fell through.
\<close>

definition andThen :: "status \<times> event list \<Rightarrow> status \<times> event list \<Rightarrow> status \<times> event list" where
  "andThen a b = (if fst a = Running then (fst b, snd a @ snd b) else a)"

text \<open>Lines 233 to 254: the two probes of the init scripts; \<open>None\<close> when \<^verbatim>\<open>exists\<close>
  aborted.\<close>

definition probe_init_scripts :: "env \<Rightarrow> (bool \<times> bool) option \<times> event list" where
  "probe_init_scripts e =
     (case exists e ''/system/etc/init/bpfloader.rc'' of
        (None, ev1) \<Rightarrow> (None, Log INFO ''NetBpfLoad '%s' starting...'' # ev1)
      | (Some has_platform_bpfloader_rc, ev1) \<Rightarrow>
          (case exists e ''/system/etc/init/netbpfload.rc'' of
             (None, ev2) \<Rightarrow> (None, Log INFO ''NetBpfLoad '%s' starting...'' # ev1 @ ev2)
           | (Some has_platform_netbpfload_rc, ev2) \<Rightarrow>
               (Some (has_platform_bpfloader_rc, has_platform_netbpfload_rc),
                Log INFO ''NetBpfLoad '%s' starting...'' # ev1 @ ev2 @
                [Log INFO ''NetBpfLoad api:%d/%d kver:%07x platform:%d mainline:%d rc:%d%d''])))"

text \<open>Lines 256 to 289: which copy runs, and under which init layout.\<close>

definition resolve_variant :: "env \<Rightarrow> bool \<Rightarrow> bool \<Rightarrow> bool \<Rightarrow> bool \<Rightarrow> status \<times> event list" where
  "resolve_variant e is_platform is_mainline has_platform_bpfloader_rc has_platform_netbpfload_rc =
     (if \<not> is_platform \<and> \<not> is_mainline
      then (Exited 1, [Log ERROR ''Unable to determine if we're platform or mainline netbpfload.''])
      else if is_platform
      then (case execve e apexNetBpfLoad of
              None \<Rightarrow>
                (Replaced apexNetBpfLoad,
                 [Log INFO ''Executing apex netbpfload...'', Execve apexNetBpfLoad])
            | Some errno \<Rightarrow>
                (Exited 1,
                 [Log INFO ''Executing apex netbpfload...'', Execve apexNetBpfLoad,
                  Log ERROR ''exec '%s' fail: %d[%s]'']))
      else if \<not> has_platform_bpfloader_rc \<and> \<not> has_platform_netbpfload_rc
      then (Exited 1,
            [Log ERROR ''Unable to find platform's bpfloader & netbpfload init scripts.''])
      else if has_platform_bpfloader_rc \<and> has_platform_netbpfload_rc
      then (Exited 1, [Log ERROR ''Platform has *both* bpfloader & netbpfload init scripts.''])
      else
        let evs = snd (logTetheringApexVersion e)
        in if is_mainline \<and> has_platform_bpfloader_rc \<and> \<not> has_platform_netbpfload_rc
           then (case execve e platformBpfLoader of
                   None \<Rightarrow> (Replaced platformBpfLoader, evs @ [Execve platformBpfLoader])
                 | Some errno \<Rightarrow>
                     (Exited 1,
                      evs @ [Execve platformBpfLoader, Log ERROR ''exec '%s' fail: %d[%s]'']))
           else (Running, evs))"

text \<open>Lines 291 to 331: the kernel requirements of the API levels.\<close>

definition isAtLeastT :: "env \<Rightarrow> bool" where
  "isAtLeastT e = (device_api_level e \<ge> ANDROID_API_T)"

definition isAtLeastU :: "env \<Rightarrow> bool" where
  "isAtLeastU e = (device_api_level e \<ge> ANDROID_API_U)"

definition isAtLeastV :: "env \<Rightarrow> bool" where
  "isAtLeastV e = (device_api_level e \<ge> ANDROID_API_V)"

definition kernel_gate :: "env \<Rightarrow> status \<times> event list" where
  "kernel_gate e =
     (let warnT = (if isAtLeastT e \<and> \<not> isAtLeastKernelVersion e 4 9 0
                   then [Log WARN ''Android T requires kernel 4.9.''] else []);
          warnU = (if isAtLeastU e \<and> \<not> isAtLeastKernelVersion e 4 14 0
                   then [Log WARN ''Android U requires kernel 4.14.''] else [])
      in if isAtLeastV e \<and> \<not> isAtLeastKernelVersion e 4 19 0
         then (Exited 1, warnT @ warnU @ [Log WARN ''Android V requires kernel 4.19.''])
         else if isAtLeastV e \<and> isX86 e \<and> \<not> isKernel64Bit e
         then (Exited 1, warnT @ warnU @ [Log ERROR ''Android V requires X86 kernel to be 64-bit.''])
         else if isUserspace32bit e \<and> isAtLeastKernelVersion e 6 2 0
         then (Exited 1, warnT @ warnU @ [Log ERROR ''64-bit userspace required on 6.2+ kernels.''])
         else (Running, warnT @ warnU))"

text \<open>Lines 333 to 338: the build type.\<close>

definition build_type_gate :: "env \<Rightarrow> status \<times> event list" where
  "build_type_gate e =
     (if \<not> isEng e \<and> \<not> isUser e \<and> \<not> isUserdebug e
      then (Exited 1,
            [Log ERROR (''Failed to determine the build type: got %s, want 'eng', 'user', or 'userdebug''
                        @ [CHR 0x27])])
      else (Running, []))"

text \<open>Lines 340 to 362: the three sysctl knobs.\<close>

definition sysctl_tuner :: "env \<Rightarrow> status \<times> event list" where
  "sysctl_tuner e =
     (if isAtLeastU e then
        let (r1, ev1) = writeProcSysFile e ''/proc/sys/kernel/unprivileged_bpf_disabled'' ''0\<newline>''
        in if r1 \<noteq> 0 \<and> isAtLeastKernelVersion e 5 13 0 then (Exited 1, ev1)
           else
             let (r2, ev2) = writeProcSysFile e ''/proc/sys/net/core/bpf_jit_enable'' ''1\<newline>''
             in if r2 \<noteq> 0 \<and> isAtLeastKernelVersion e 4 14 0 then (Exited 1, ev1 @ ev2)
                else
                  let (r3, ev3) =
                        writeProcSysFile e ''/proc/sys/net/core/bpf_jit_kallsyms'' ''1\<newline>''
                  in if r3 \<noteq> 0 \<and> isAtLeastKernelVersion e 4 14 0
                     then (Exited 1, ev1 @ ev2 @ ev3)
                     else (Running, ev1 @ ev2 @ ev3)
      else (Running, []))"

text \<open>Lines 364 to 377: the pin directories of the locations, then \<^verbatim>\<open>loader\<close>.\<close>

fun create_location_dirs :: "env \<Rightarrow> location list \<Rightarrow> world \<Rightarrow> (status \<times> event list) \<times> world" where
  "create_location_dirs e [] w = ((Running, []), w)"
| "create_location_dirs e (loc # rest) w =
     (case createSysFsBpfSubDir e (prefix loc) w of
        (r, evs, w') \<Rightarrow>
          (if r \<noteq> 0 then ((Exited 1, evs), w')
           else case create_location_dirs e rest w' of
                  (res, w'') \<Rightarrow> (andThen (Running, evs) res, w'')))"

definition create_pin_dirs :: "env \<Rightarrow> world \<Rightarrow> (status \<times> event list) \<times> world" where
  "create_pin_dirs e w =
     (case create_location_dirs e locations w of
        (res, w') \<Rightarrow>
          (if fst res \<noteq> Running then (res, w')
           else case createSysFsBpfSubDir e ''loader'' w' of
                  (r, evs, w'') \<Rightarrow>
                    (andThen res (if r \<noteq> 0 then (Exited 1, evs) else (Running, evs)), w'')))"

text \<open>Lines 379 to 390: the load of every location, up to the first that fails.\<close>

definition critical_failure :: "event list" where
  "critical_failure =
     [Log ERROR ''=== CRITICAL FAILURE LOADING BPF PROGRAMS FROM %s ==='',
      Log ERROR ''If this triggers reliably, you're probably missing kernel options or patches.'',
      Log ERROR ''If this triggers randomly, you might be hitting some memory allocation problems or startup script race.'',
      Log ERROR ''--- DO NOT EXPECT SYSTEM TO BOOT SUCCESSFULLY ---'',
      Sleep 20]"

fun load_locations :: "env \<Rightarrow> location list \<Rightarrow> status \<times> event list" where
  "load_locations e [] = (Running, [])"
| "load_locations e (loc # rest) =
     (case loadAllElfObjects e loc of
        (r, evs) \<Rightarrow>
          (if r \<noteq> 0 then (Exited 2, evs @ critical_failure)
           else andThen (Running, evs) (load_locations e rest)))"

text \<open>Lines 392 to 399: the write into a two element array map.\<close>

definition sanity_check :: "env \<Rightarrow> status \<times> event list" where
  "sanity_check e =
     (let key = 1; val = 123;
          fd = createMap e BPF_MAP_TYPE_ARRAY sizeof_int sizeof_int 2 0
      in if writeToMapEntry e fd key val BPF_ANY \<noteq> 0
         then (Exited 1,
               [CreateMap BPF_MAP_TYPE_ARRAY sizeof_int sizeof_int 2 0,
                WriteToMapEntry fd key val BPF_ANY,
                Log ERROR ''Critical kernel bug - failure to write into index 1 of 2 element bpf map array.''])
         else (Running,
               [CreateMap BPF_MAP_TYPE_ARRAY sizeof_int sizeof_int 2 0,
                WriteToMapEntry fd key val BPF_ANY]))"

text \<open>Lines 401 to 406: the platform bpfloader takes over.\<close>

definition handoff :: "env \<Rightarrow> status \<times> event list" where
  "handoff e =
     (case execve e platformBpfLoader of
        None \<Rightarrow>
          (Replaced platformBpfLoader,
           [Log INFO ''done, transferring control to platform bpfloader.'',
            Execve platformBpfLoader])
      | Some errno \<Rightarrow>
          (Exited 1,
           [Log INFO ''done, transferring control to platform bpfloader.'',
            Execve platformBpfLoader, Log ERROR ''FATAL: execve('%s'): %d[%s]'']))"

text \<open>
  \<^verbatim>\<open>main\<close>, and the runs of its first lines: \<open>main_resolved\<close> is the run up to line 289,
  \<open>main_gated\<close> up to line 338, \<open>main_tuned\<close> up to line 362, \<open>main_pinned\<close> up to
  line 377 and \<open>main_loaded\<close> up to line 390. The status of each says whether the run goes
  on from there.
\<close>

definition main_resolved :: "env \<Rightarrow> status \<times> event list" where
  "main_resolved e =
     (let is_mainline = (argv0 e = apexNetBpfLoad);
          is_platform = (argv0 e = platformNetBpfLoad)
      in case probe_init_scripts e of
           (None, evs) \<Rightarrow> (Aborted, evs)
         | (Some (has_platform_bpfloader_rc, has_platform_netbpfload_rc), evs) \<Rightarrow>
             andThen (Running, evs)
               (resolve_variant e is_platform is_mainline
                  has_platform_bpfloader_rc has_platform_netbpfload_rc))"

definition main_gated :: "env \<Rightarrow> status \<times> event list" where
  "main_gated e = andThen (main_resolved e) (andThen (kernel_gate e) (build_type_gate e))"

definition main_tuned :: "env \<Rightarrow> status \<times> event list" where
  "main_tuned e = andThen (main_gated e) (sysctl_tuner e)"

definition main_pinned :: "env \<Rightarrow> world \<Rightarrow> (status \<times> event list) \<times> world" where
  "main_pinned e w =
     (if fst (main_tuned e) \<noteq> Running then (main_tuned e, w)
      else case create_pin_dirs e w of (res, w') \<Rightarrow> (andThen (main_tuned e) res, w'))"

definition main_loaded :: "env \<Rightarrow> world \<Rightarrow> (status \<times> event list) \<times> world" where
  "main_loaded e w =
     (case main_pinned e w of (res, w') \<Rightarrow> (andThen res (load_locations e locations), w'))"

definition main :: "env \<Rightarrow> world \<Rightarrow> (status \<times> event list) \<times> world" where
  "main e w =
     (case main_loaded e w of
        (res, w') \<Rightarrow> (andThen res (andThen (sanity_check e) (handoff e)), w'))"

subsection \<open>The words of the specification\<close>

text \<open>
  The outcomes of the Boot-Variant Resolver, read off what \<open>resolve_variant\<close> does:
  the two fatal configurations (an unknown invocation; a malformed init layout, with both
  init scripts or with neither), the two delegations (to the legacy loader of the
  platform; to the copy of the mainline module) and the continuation of the pipeline.
\<close>

definition fail_unknown :: "status \<times> event list \<Rightarrow> bool" where
  "fail_unknown r =
     (fst r = Exited 1 \<and>
      Log ERROR ''Unable to determine if we're platform or mainline netbpfload.'' \<in> set (snd r))"

definition fail_conflict :: "status \<times> event list \<Rightarrow> bool" where
  "fail_conflict r =
     (fst r = Exited 1 \<and>
      (Log ERROR ''Unable to find platform's bpfloader & netbpfload init scripts.'' \<in> set (snd r)
       \<or> Log ERROR ''Platform has *both* bpfloader & netbpfload init scripts.'' \<in> set (snd r)))"

definition delegate_legacy :: "status \<times> event list \<Rightarrow> bool" where
  "delegate_legacy r = (Execve platformBpfLoader \<in> set (snd r))"

definition delegate_module :: "status \<times> event list \<Rightarrow> bool" where
  "delegate_module r = (Execve apexNetBpfLoad \<in> set (snd r))"

definition proceed :: "status \<times> event list \<Rightarrow> bool" where
  "proceed r = (fst r = Running)"

text \<open>A kernel at or above the threshold of every requirement that applies to the
  device's API level.\<close>

definition meets_thresholds :: "env \<Rightarrow> bool" where
  "meets_thresholds e =
     ((isAtLeastT e \<longrightarrow> isAtLeastKernelVersion e 4 9 0) \<and>
      (isAtLeastU e \<longrightarrow> isAtLeastKernelVersion e 4 14 0) \<and>
      (isAtLeastV e \<longrightarrow> isAtLeastKernelVersion e 4 19 0))"

text \<open>The object files of a location among the entries of its directory, by path; the
  paths the loader was called with, in the order of the calls; and the files whose load
  fails critically.\<close>

definition object_files :: "location \<Rightarrow> string list \<Rightarrow> string list" where
  "object_files loc ents = map (\<lambda>s. dir loc @ s) (filter (\<lambda>s. EndsWith s ''.o'') ents)"

fun loader_calls :: "event list \<Rightarrow> string list" where
  "loader_calls [] = []"
| "loader_calls (LoadProg p # evs) = p # loader_calls evs"
| "loader_calls (ev # evs) = loader_calls evs"

definition critical_failures :: "env \<Rightarrow> location \<Rightarrow> string list \<Rightarrow> string list" where
  "critical_failures e loc ps =
     filter (\<lambda>p. fst (loadProg e p loc) \<noteq> 0 \<and> snd (loadProg e p loc)) ps"

text \<open>The events of the stages before the loads (logs, probes, sysctl writes, directory
  creation), and the events of the Sanity Check and of a hand-over of the process.\<close>

fun early_event :: "event \<Rightarrow> bool" where
  "early_event (Log pr s) = True"
| "early_event (Access p) = True"
| "early_event (Open p) = True"
| "early_event (Write p v) = True"
| "early_event (Umask m) = True"
| "early_event (Mkdir p m) = True"
| "early_event ev = False"

fun sanity_or_handoff :: "event \<Rightarrow> bool" where
  "sanity_or_handoff (Execve p) = True"
| "sanity_or_handoff (CreateMap t k v n f) = True"
| "sanity_or_handoff (WriteToMapEntry fd k v f) = True"
| "sanity_or_handoff ev = False"

subsection \<open>A device to run on\<close>

text \<open>
  A device on which the whole of \<^verbatim>\<open>main\<close> runs: the mainline copy is started on an
  Android V system with the new init script, a 6.6 kernel and 64-bit userspace, every
  system call succeeds and no location is installed. The other devices differ from it in
  one answer each.
\<close>

definition device :: env where
  "device =
     \<lparr>argv0 = apexNetBpfLoad,
      device_api_level = 35,
      access = (\<lambda>p. if p = ''/system/etc/init/netbpfload.rc'' then None else Some ENOENT),
      execve = (\<lambda>p. None),
      sys_open = (\<lambda>p. None),
      sys_write = (\<lambda>p v. Inr (length v)),
      mkdir_err = (\<lambda>p. None),
      opendir = (\<lambda>p. None),
      loadProg = (\<lambda>p loc. (0, False)),
      createMap = (\<lambda>t k v n f. 3),
      writeToMapEntry = (\<lambda>fd k v f. 0),
      proc_mounts = (\<lambda>n. None),
      kernelVersion = (6, 6, 0),
      isX86 = False,
      isKernel64Bit = True,
      isUserspace32bit = False,
      isEng = False,
      isUser = True,
      isUserdebug = False\<rparr>"

definition boot_world :: world where
  "boot_world = \<lparr>umask = 18, dirs = Map.empty\<rparr>"

definition platform_invocation :: "status \<times> event list" where
  "platform_invocation = resolve_variant device True False False True"

definition device_32bit_userspace :: env where
  "device_32bit_userspace = device\<lparr>isUserspace32bit := True\<rparr>"

definition device_u_old_kernel :: env where
  "device_u_old_kernel = device\<lparr>device_api_level := 34, kernelVersion := (4, 9, 0)\<rparr>"

definition device_u_old_kernel_no_knobs :: env where
  "device_u_old_kernel_no_knobs = device_u_old_kernel\<lparr>sys_open := (\<lambda>p. Some ENOENT)\<rparr>"

definition device_no_knobs :: env where
  "device_no_knobs = device\<lparr>sys_open := (\<lambda>p. Some ENOENT)\<rparr>"

definition device_rc_unreadable :: env where
  "device_rc_unreadable = device\<lparr>access := (\<lambda>p. Some EACCES)\<rparr>"

definition device_mkdir_denied :: env where
  "device_mkdir_denied = device\<lparr>mkdir_err := (\<lambda>p. Some EACCES)\<rparr>"

definition device_map_broken :: env where
  "device_map_broken = device\<lparr>writeToMapEntry := (\<lambda>fd k v f. - 1)\<rparr>"

text \<open>A device whose second location holds three object files and a file that is not
  one: the load of \<^verbatim>\<open>a.o\<close> fails critically, that of \<^verbatim>\<open>b.o\<close> fails without being
  critical, that of \<^verbatim>\<open>c.o\<close> succeeds.\<close>

definition netd_shared :: location where
  "netd_shared =
     \<lparr>dir = ''/apex/com.android.tethering/etc/bpf/netd_shared/'', prefix = ''netd_shared/''\<rparr>"

definition device_bad_object :: env where
  "device_bad_object =
     device\<lparr>opendir := (\<lambda>p. if p = dir netd_shared
                              then Some [''a.o'', ''README'', ''b.o'', ''c.o''] else None),
            loadProg := (\<lambda>p loc. if p = dir netd_shared @ ''a.o'' then (- 22, True)
                                  else if p = dir netd_shared @ ''b.o'' then (- 2, False)
                                  else (0, False))\<rparr>"

section \<open>Properties\<close>

subsection \<open>Sequencing and the events of the stages\<close>

lemma andThen_Running: "fst a = Running \<Longrightarrow> andThen a b = (fst b, snd a @ snd b)"
  by (simp add: andThen_def)

lemma andThen_stopped: "fst a \<noteq> Running \<Longrightarrow> andThen a b = a"
  by (simp add: andThen_def)

lemma andThen_Running_iff: "fst (andThen a b) = Running \<longleftrightarrow> fst a = Running \<and> fst b = Running"
  by (auto simp add: andThen_def)

lemma andThen_early:
  "\<forall>ev\<in>set (snd a). early_event ev \<Longrightarrow> \<forall>ev\<in>set (snd b). early_event ev
   \<Longrightarrow> \<forall>ev\<in>set (snd (andThen a b)). early_event ev"
  by (auto simp add: andThen_def)

text \<open>The version logger only logs; every stage before the loads leaves early events
  only, and \<open>resolve_variant\<close> does so when it falls through.\<close>

lemma version_lines_events:
  "ev \<in> set (version_lines b ls) \<Longrightarrow> ev = Log INFO ''Tethering APEX version %s''"
  by (induction ls) (auto split: option.splits if_splits)

lemma logTetheringApexVersion_events:
  "ev \<in> set (snd (logTetheringApexVersion e)) \<Longrightarrow> \<exists>s. ev = Log DEBUG s \<or> ev = Log INFO s"
  by (auto simp add: logTetheringApexVersion_def split: option.splits dest: version_lines_events)

lemma logTetheringApexVersion_early:
  "\<forall>ev\<in>set (snd (logTetheringApexVersion e)). early_event ev"
  by (auto dest: logTetheringApexVersion_events)

lemma exists_early: "\<forall>ev\<in>set (snd (exists e p)). early_event ev"
  by (auto simp add: exists_def split: option.splits)

lemma probe_init_scripts_early: "\<forall>ev\<in>set (snd (probe_init_scripts e)). early_event ev"
  using exists_early [of e "''/system/etc/init/bpfloader.rc''"]
        exists_early [of e "''/system/etc/init/netbpfload.rc''"]
  by (cases "exists e ''/system/etc/init/bpfloader.rc''";
      cases "exists e ''/system/etc/init/netbpfload.rc''")
     (auto simp add: probe_init_scripts_def split: option.splits)

lemma resolve_variant_early:
  "fst (resolve_variant e pl mdl ro rn) = Running
   \<Longrightarrow> \<forall>ev\<in>set (snd (resolve_variant e pl mdl ro rn)). early_event ev"
  using logTetheringApexVersion_early [of e]
  by (auto simp add: resolve_variant_def Let_def split: if_splits option.splits)

lemma main_resolved_early:
  assumes "fst (main_resolved e) = Running"
  shows "\<forall>ev\<in>set (snd (main_resolved e)). early_event ev"
proof (cases "probe_init_scripts e")
  case (Pair found evs)
  show ?thesis
  proof (cases found)
    case None
    with Pair assms show ?thesis by (simp add: main_resolved_def)
  next
    case (Some rcs)
    obtain ro rn where rcs: "rcs = (ro, rn)" by (cases rcs)
    let ?r = "resolve_variant e (argv0 e = platformNetBpfLoad) (argv0 e = apexNetBpfLoad) ro rn"
    have m: "main_resolved e = andThen (Running, evs) ?r"
      using Pair Some rcs by (simp add: main_resolved_def)
    with assms have "fst ?r = Running" by (simp add: andThen_Running_iff)
    then have "\<forall>ev\<in>set (snd ?r). early_event ev" by (rule resolve_variant_early)
    moreover have "\<forall>ev\<in>set evs. early_event ev"
      using probe_init_scripts_early [of e] Pair by simp
    ultimately show ?thesis unfolding m by (intro andThen_early) simp_all
  qed
qed

lemma kernel_gate_early: "\<forall>ev\<in>set (snd (kernel_gate e)). early_event ev"
  by (auto simp add: kernel_gate_def Let_def)

lemma build_type_gate_early: "\<forall>ev\<in>set (snd (build_type_gate e)). early_event ev"
  by (simp add: build_type_gate_def)

lemma writeProcSysFile_early: "\<forall>ev\<in>set (snd (writeProcSysFile e f v)). early_event ev"
  by (simp add: writeProcSysFile_def split: option.splits sum.splits)

lemma sysctl_tuner_early: "\<forall>ev\<in>set (snd (sysctl_tuner e)). early_event ev"
  using writeProcSysFile_early [of e]
  by (auto simp add: sysctl_tuner_def case_prod_beta)

lemma createSysFsBpfSubDir_early:
  "\<forall>ev\<in>set (fst (snd (createSysFsBpfSubDir e p w))). early_event ev"
  by (simp add: createSysFsBpfSubDir_def Let_def case_prod_beta split: option.splits)

lemma create_location_dirs_early:
  "\<forall>ev\<in>set (snd (fst (create_location_dirs e locs w))). early_event ev"
proof (induction locs arbitrary: w)
  case Nil
  show ?case by simp
next
  case (Cons loc rest)
  obtain r evs w' where c: "createSysFsBpfSubDir e (prefix loc) w = (r, evs, w')"
    by (cases "createSysFsBpfSubDir e (prefix loc) w") auto
  have evs: "\<forall>ev\<in>set evs. early_event ev"
    using createSysFsBpfSubDir_early [of e "prefix loc" w] c by simp
  show ?case
  proof (cases "r = 0")
    case False
    with c evs show ?thesis by simp
  next
    case True
    have "\<forall>ev\<in>set (snd (andThen (Running, evs) (fst (create_location_dirs e rest w')))). early_event ev"
      using evs Cons.IH [of w'] by (intro andThen_early) simp_all
    with c True show ?thesis by (simp add: case_prod_beta)
  qed
qed

lemma create_pin_dirs_early:
  "\<forall>ev\<in>set (snd (fst (create_pin_dirs e w))). early_event ev"
proof -
  let ?c = "create_location_dirs e locations w"
  have a: "\<forall>ev\<in>set (snd (fst ?c)). early_event ev" by (rule create_location_dirs_early)
  show ?thesis
  proof (cases "fst (fst ?c) = Running")
    case False
    with a show ?thesis by (simp add: create_pin_dirs_def case_prod_beta)
  next
    case True
    let ?l = "createSysFsBpfSubDir e ''loader'' (snd ?c)"
    have "\<forall>ev\<in>set (snd (andThen (fst ?c)
             (if fst ?l \<noteq> 0 then (Exited 1, fst (snd ?l)) else (Running, fst (snd ?l))))). early_event ev"
      using a createSysFsBpfSubDir_early [of e "''loader''" "snd ?c"]
      by (intro andThen_early) simp_all
    with True show ?thesis by (simp add: create_pin_dirs_def case_prod_beta)
  qed
qed

lemma main_pinned_early:
  assumes "fst (fst (main_pinned e w)) = Running"
  shows "\<forall>ev\<in>set (snd (fst (main_pinned e w))). early_event ev"
proof -
  have t: "fst (main_tuned e) = Running"
    using assms by (auto simp add: main_pinned_def split: if_splits)
  then have g: "fst (main_gated e) = Running"
    by (simp add: main_tuned_def andThen_Running_iff)
  then have r: "fst (main_resolved e) = Running"
    by (simp add: main_gated_def andThen_Running_iff)
  have "\<forall>ev\<in>set (snd (main_gated e)). early_event ev"
    unfolding main_gated_def
    by (intro andThen_early main_resolved_early r kernel_gate_early build_type_gate_early)
  then have "\<forall>ev\<in>set (snd (main_tuned e)). early_event ev"
    unfolding main_tuned_def by (intro andThen_early sysctl_tuner_early)
  then have "\<forall>ev\<in>set (snd (andThen (main_tuned e) (fst (create_pin_dirs e w)))). early_event ev"
    by (intro andThen_early create_pin_dirs_early)
  with t show ?thesis by (simp add: main_pinned_def case_prod_beta)
qed

lemma early_not_late: "early_event ev \<Longrightarrow> \<not> sanity_or_handoff ev \<and> (\<forall>d. ev \<noteq> Opendir d)"
  by (cases ev) simp_all

text \<open>A process that stopped in an early stage stays stopped.\<close>

lemma main_resolved_aborted:
  "fst (probe_init_scripts e) = None \<Longrightarrow> main_resolved e = (Aborted, snd (probe_init_scripts e))"
  by (cases "probe_init_scripts e") (simp add: main_resolved_def)

lemma main_after_abort:
  assumes "fst (main_resolved e) = Aborted"
  shows "fst (main e w) = main_resolved e"
proof -
  have g: "main_gated e = main_resolved e"
    using assms by (simp add: main_gated_def andThen_stopped)
  then have t: "main_tuned e = main_resolved e"
    using assms by (simp add: main_tuned_def andThen_stopped)
  then have p: "fst (main_pinned e w) = main_resolved e"
    using assms by (simp add: main_pinned_def)
  then have l: "fst (main_loaded e w) = main_resolved e"
    using assms by (simp add: main_loaded_def case_prod_beta andThen_stopped)
  then show ?thesis
    using assms by (simp add: main_def case_prod_beta andThen_stopped)
qed

lemma main_exits_in_tuner:
  assumes "fst (main_gated e) = Running" and "fst (sysctl_tuner e) = Exited n"
  shows "fst (fst (main e w)) = Exited n"
proof -
  have t: "fst (main_tuned e) = Exited n"
    using assms by (simp add: main_tuned_def andThen_Running)
  then have p: "fst (fst (main_pinned e w)) = Exited n"
    by (simp add: main_pinned_def)
  then have l: "fst (fst (main_loaded e w)) = Exited n"
    by (simp add: main_loaded_def case_prod_beta andThen_stopped)
  then show ?thesis
    by (simp add: main_def case_prod_beta andThen_stopped)
qed

subsection \<open>The Boot-Variant Resolver\<close>

lemma loaders_differ: "apexNetBpfLoad \<noteq> platformBpfLoader"
  by (simp add: apexNetBpfLoad_def platformBpfLoader_def APEX_MOUNT_POINT_def)

text \<open>
  Claim C1, as amended. For every combination of the four booleans (\<^verbatim>\<open>argv[0]\<close> is the
  platform path, \<^verbatim>\<open>argv[0]\<close> is the path of the mainline module, the legacy init script
  is present, the new init script is present) the Resolver chooses exactly one of five
  outcomes: fail-unknown, delegation to the copy of the mainline module, fail-conflict,
  delegation to the legacy loader, or proceeding. Each outcome is chosen on a condition on
  the four booleans alone, and exactly one of the five is chosen. A platform invocation
  always delegates to the module.
\<close>

theorem resolve_variant_outcome:
  "(fail_unknown (resolve_variant e is_platform is_mainline rc_old rc_new)
      \<longleftrightarrow> \<not> is_platform \<and> \<not> is_mainline)
   \<and> (delegate_module (resolve_variant e is_platform is_mainline rc_old rc_new)
      \<longleftrightarrow> is_platform)
   \<and> (fail_conflict (resolve_variant e is_platform is_mainline rc_old rc_new)
      \<longleftrightarrow> \<not> is_platform \<and> is_mainline \<and> rc_old = rc_new)
   \<and> (delegate_legacy (resolve_variant e is_platform is_mainline rc_old rc_new)
      \<longleftrightarrow> \<not> is_platform \<and> is_mainline \<and> rc_old \<and> \<not> rc_new)
   \<and> (proceed (resolve_variant e is_platform is_mainline rc_old rc_new)
      \<longleftrightarrow> \<not> is_platform \<and> is_mainline \<and> \<not> rc_old \<and> rc_new)
   \<and> length (filter (\<lambda>chosen. chosen (resolve_variant e is_platform is_mainline rc_old rc_new))
         [fail_unknown, delegate_module, fail_conflict, delegate_legacy, proceed]) = 1"
proof -
  have quiet: "\<And>p. Execve p \<notin> set (snd (logTetheringApexVersion e))"
              "\<And>s. Log ERROR s \<notin> set (snd (logTetheringApexVersion e))"
    using logTetheringApexVersion_events [of _ e] by blast+
  show ?thesis
    using loaders_differ
    by (cases is_platform; cases is_mainline; cases rc_old; cases rc_new;
        cases "execve e apexNetBpfLoad"; cases "execve e platformBpfLoader")
       (simp_all add: resolve_variant_def fail_unknown_def delegate_module_def fail_conflict_def
          delegate_legacy_def proceed_def Let_def quiet)
qed

theorem resolve_variant_outcome_witness:
  "delegate_module (resolve_variant device True False False True)
   \<and> fail_unknown (resolve_variant device False False False True)
   \<and> fail_conflict (resolve_variant device False True True True)
   \<and> delegate_legacy (resolve_variant device False True True False)
   \<and> proceed (resolve_variant device False True False True)"
  using resolve_variant_outcome [of device True False False True]
        resolve_variant_outcome [of device False False False True]
        resolve_variant_outcome [of device False True True True]
        resolve_variant_outcome [of device False True True False]
        resolve_variant_outcome [of device False True False True]
  by simp

text \<open>
  Claim C1, as stated, names four outcomes only. The platform copy, started on a system
  with the new init script, executes the copy of the mainline module: it neither fails,
  nor starts the legacy loader, nor proceeds.
\<close>

theorem platform_invocation_counterexample:
  "\<not> (fail_unknown platform_invocation \<or> fail_conflict platform_invocation
       \<or> delegate_legacy platform_invocation \<or> proceed platform_invocation)"
  by (simp add: platform_invocation_def resolve_variant_def device_def fail_unknown_def
        fail_conflict_def delegate_legacy_def proceed_def apexNetBpfLoad_def
        platformBpfLoader_def APEX_MOUNT_POINT_def)

subsection \<open>The Object Discovery and Load Driver\<close>

lemma readdir_loop_calls:
  "loader_calls (snd (readdir_loop e loc r ents)) = object_files loc ents"
  by (induction ents arbitrary: r) (simp_all add: object_files_def Let_def case_prod_beta)

lemma readdir_loop_ret:
  "fst (readdir_loop e loc r ents) =
     (if critical_failures e loc (object_files loc ents) = [] then r
      else fst (loadProg e (last (critical_failures e loc (object_files loc ents))) loc))"
  by (induction ents arbitrary: r)
     (simp_all add: object_files_def critical_failures_def Let_def case_prod_beta)

text \<open>
  Claim C2. In a location whose directory can be read, the loader is called on every entry
  whose name ends in \<^verbatim>\<open>.o\<close>, once each and in the order of the directory, whatever the
  earlier loads report; the result of the location is not 0 as soon as one load fails
  critically; and the result is that of the last critical failure, or 0 when there is
  none, so that a failure that is not critical does not change it.
\<close>

theorem loadAllElfObjects_sweeps_every_object:
  assumes "opendir e (dir loc) = Some ents"
  shows "loader_calls (snd (loadAllElfObjects e loc)) = object_files loc ents
       \<and> length (loader_calls (snd (loadAllElfObjects e loc)))
           = length (filter (\<lambda>s. EndsWith s ''.o'') ents)
       \<and> (critical_failures e loc (object_files loc ents) \<noteq> []
            \<longrightarrow> fst (loadAllElfObjects e loc) \<noteq> 0)
       \<and> fst (loadAllElfObjects e loc) =
           (if critical_failures e loc (object_files loc ents) = [] then 0
            else fst (loadProg e (last (critical_failures e loc (object_files loc ents))) loc))"
proof -
  let ?cf = "critical_failures e loc (object_files loc ents)"
  have calls: "loader_calls (snd (loadAllElfObjects e loc)) = object_files loc ents"
    using assms readdir_loop_calls [of e loc 0 ents]
    by (simp add: loadAllElfObjects_def case_prod_beta)
  have ret: "fst (loadAllElfObjects e loc) = (if ?cf = [] then 0 else fst (loadProg e (last ?cf) loc))"
    using assms readdir_loop_ret [of e loc 0 ents]
    by (simp add: loadAllElfObjects_def case_prod_beta)
  have "fst (loadProg e (last ?cf) loc) \<noteq> 0" if "?cf \<noteq> []"
  proof -
    from that have "last ?cf \<in> set ?cf" by simp
    then show ?thesis by (simp add: critical_failures_def)
  qed
  with calls ret show ?thesis by (simp add: object_files_def)
qed

theorem loadAllElfObjects_sweeps_every_object_witness:
  "loader_calls (snd (loadAllElfObjects device_bad_object netd_shared))
     = [dir netd_shared @ ''a.o'', dir netd_shared @ ''b.o'', dir netd_shared @ ''c.o'']
   \<and> fst (loadAllElfObjects device_bad_object netd_shared) = - 22"
proof -
  have h: "opendir device_bad_object (dir netd_shared) = Some [''a.o'', ''README'', ''b.o'', ''c.o'']"
    by (simp add: device_bad_object_def)
  from loadAllElfObjects_sweeps_every_object [OF h] show ?thesis
    by (simp add: object_files_def critical_failures_def EndsWith_def device_bad_object_def
          netd_shared_def)
qed

text \<open>
  Claim C8. A location whose directory cannot be opened is skipped: the result is 0 and
  the loader is not called.
\<close>

theorem loadAllElfObjects_skips_missing_directory:
  assumes "opendir e (dir loc) = None"
  shows "loadAllElfObjects e loc = (0, [Opendir (dir loc)])
       \<and> loader_calls (snd (loadAllElfObjects e loc)) = []"
  using assms by (simp add: loadAllElfObjects_def)

theorem loadAllElfObjects_skips_missing_directory_witness:
  "loadAllElfObjects device netd_shared = (0, [Opendir (dir netd_shared)])
   \<and> loader_calls (snd (loadAllElfObjects device netd_shared)) = []"
proof -
  have h: "opendir device (dir netd_shared) = None"
    by (simp add: device_def)
  from loadAllElfObjects_skips_missing_directory [OF h] show ?thesis .
qed

lemma readdir_loop_events:
  "ev \<in> set (snd (readdir_loop e loc r ents))
   \<Longrightarrow> \<not> sanity_or_handoff ev \<and> (\<forall>d. ev \<noteq> Opendir d)"
  by (induction ents arbitrary: r) (auto simp add: Let_def case_prod_beta split: if_splits)

lemma loadAllElfObjects_events:
  "ev \<in> set (snd (loadAllElfObjects e loc))
   \<Longrightarrow> \<not> sanity_or_handoff ev \<and> (\<forall>d. ev = Opendir d \<longrightarrow> d = dir loc)"
  using readdir_loop_events [of ev e loc 0]
  by (auto simp add: loadAllElfObjects_def case_prod_beta split: option.splits)

lemma load_locations_fails:
  "\<forall>l\<in>set pre. fst (loadAllElfObjects e l) = 0 \<Longrightarrow> fst (loadAllElfObjects e loc) \<noteq> 0
   \<Longrightarrow> load_locations e (pre @ loc # post)
       = (Exited 2, concat (map (\<lambda>l. snd (loadAllElfObjects e l)) (pre @ [loc])) @ critical_failure)"
  by (induction pre) (simp_all add: case_prod_beta andThen_def)

lemma load_locations_succeeds:
  "\<forall>l\<in>set locs. fst (loadAllElfObjects e l) = 0
   \<Longrightarrow> load_locations e locs = (Running, concat (map (\<lambda>l. snd (loadAllElfObjects e l)) locs))"
  by (induction locs) (simp_all add: case_prod_beta andThen_def)

lemma critical_failure_events:
  "ev \<in> set critical_failure \<Longrightarrow> \<not> sanity_or_handoff ev \<and> (\<forall>d. ev \<noteq> Opendir d)"
  by (auto simp add: critical_failure_def)

lemma locations_distinct: "distinct (map dir locations)"
  by (simp add: locations_def)

lemma later_dirs_fresh:
  assumes split: "locations = pre @ loc # post" and "l \<in> set post" "l' \<in> set (pre @ [loc])"
  shows "dir l \<noteq> dir l'"
proof -
  have "distinct (map dir pre @ dir loc # map dir post)"
    using locations_distinct unfolding split by simp
  then have a: "dir loc \<notin> dir ` set post" and b: "dir ` set pre \<inter> dir ` set post = {}"
    by auto
  have c: "dir l \<in> dir ` set post"
    using assms(2) by (rule imageI)
  from assms(3) have "l' \<in> set pre \<or> l' = loc" by auto
  then show ?thesis
  proof
    assume "l' \<in> set pre"
    then have "dir l' \<in> dir ` set pre" by (rule imageI)
    with b c show ?thesis by (metis disjoint_iff)
  next
    assume "l' = loc"
    with a c show ?thesis by metis
  qed
qed

text \<open>
  Claim C7. When the run has created the pin directories and a location is the first
  whose load result is not 0, the process exits with code 2; after the events of the loads
  up to and including that location it logs the four error lines of the diagnostic and
  sleeps 20 seconds, and these five events are the last of the run: no later location is
  opened, no map is created or written, and no program is executed.
\<close>

theorem critical_load_failure_exits_2:
  assumes reach: "fst (fst (main_pinned e w)) = Running"
    and split: "locations = pre @ loc # post"
    and ok: "\<forall>l\<in>set pre. fst (loadAllElfObjects e l) = 0"
    and bad: "fst (loadAllElfObjects e loc) \<noteq> 0"
  shows "fst (main e w) =
           (Exited 2,
            snd (fst (main_pinned e w))
            @ concat (map (\<lambda>l. snd (loadAllElfObjects e l)) (pre @ [loc]))
            @ [Log ERROR ''=== CRITICAL FAILURE LOADING BPF PROGRAMS FROM %s ==='',
              Log ERROR ''If this triggers reliably, you're probably missing kernel options or patches.'',
              Log ERROR ''If this triggers randomly, you might be hitting some memory allocation problems or startup script race.'',
              Log ERROR ''--- DO NOT EXPECT SYSTEM TO BOOT SUCCESSFULLY ---'',
              Sleep 20])
       \<and> (\<forall>l\<in>set post. Opendir (dir l) \<notin> set (snd (fst (main e w))))
       \<and> (\<forall>ev\<in>set (snd (fst (main e w))). \<not> sanity_or_handoff ev)"
proof -
  let ?loads = "concat (map (\<lambda>l. snd (loadAllElfObjects e l)) (pre @ [loc]))"
  have l: "load_locations e locations = (Exited 2, ?loads @ critical_failure)"
    unfolding split using ok bad by (rule load_locations_fails)
  have ld: "fst (main_loaded e w) = (Exited 2, snd (fst (main_pinned e w)) @ ?loads @ critical_failure)"
    using reach l by (simp add: main_loaded_def case_prod_beta andThen_Running)
  then have m: "fst (main e w) = (Exited 2, snd (fst (main_pinned e w)) @ ?loads @ critical_failure)"
    by (simp add: main_def case_prod_beta andThen_stopped)
  have early: "\<forall>ev\<in>set (snd (fst (main_pinned e w))). early_event ev"
    using reach by (rule main_pinned_early)
  have fresh: "dir l \<noteq> dir l'" if "l \<in> set post" "l' \<in> set (pre @ [loc])" for l l'
    using split that by (rule later_dirs_fresh)
  have no_opendir: "Opendir (dir l) \<notin> set (snd (fst (main e w)))" if "l \<in> set post" for l
  proof
    assume "Opendir (dir l) \<in> set (snd (fst (main e w)))"
    then consider "Opendir (dir l) \<in> set (snd (fst (main_pinned e w)))"
      | "Opendir (dir l) \<in> set ?loads" | "Opendir (dir l) \<in> set critical_failure"
      unfolding m by auto
    then show False
    proof cases
      case 1
      with early early_not_late show False by blast
    next
      case 2
      then obtain l' where "l' \<in> set (pre @ [loc])"
        and "Opendir (dir l) \<in> set (snd (loadAllElfObjects e l'))" by auto
      with loadAllElfObjects_events [of "Opendir (dir l)" e l'] fresh [OF that, of l']
      show False by simp
    next
      case 3
      with critical_failure_events show False by blast
    qed
  qed
  have quiet: "\<not> sanity_or_handoff ev" if "ev \<in> set (snd (fst (main e w)))" for ev
  proof -
    from that consider "ev \<in> set (snd (fst (main_pinned e w)))"
      | "ev \<in> set ?loads" | "ev \<in> set critical_failure"
      unfolding m by auto
    then show ?thesis
    proof cases
      case 1
      with early early_not_late show ?thesis by blast
    next
      case 2
      then obtain l' where "ev \<in> set (snd (loadAllElfObjects e l'))" by auto
      with loadAllElfObjects_events show ?thesis by blast
    next
      case 3
      with critical_failure_events show ?thesis by blast
    qed
  qed
  from m no_opendir quiet show ?thesis unfolding critical_failure_def by blast
qed

theorem critical_load_failure_exits_2_witness:
  "fst (fst (main device_bad_object boot_world)) = Exited 2
   \<and> Opendir ''/apex/com.android.tethering/etc/bpf/netd_readonly/''
        \<notin> set (snd (fst (main device_bad_object boot_world)))
   \<and> Log ERROR ''=== CRITICAL FAILURE LOADING BPF PROGRAMS FROM %s ===''
        \<in> set (snd (fst (main device_bad_object boot_world)))
   \<and> Log ERROR ''--- DO NOT EXPECT SYSTEM TO BOOT SUCCESSFULLY ---''
        \<in> set (snd (fst (main device_bad_object boot_world)))
   \<and> last (snd (fst (main device_bad_object boot_world))) = Sleep 20"
proof -
  have reach: "fst (fst (main_pinned device_bad_object boot_world)) = Running"
    by code_simp
  have split: "locations =
      [\<lparr>dir = ''/apex/com.android.tethering/etc/bpf/'', prefix = ''tethering/''\<rparr>]
      @ netd_shared
      # [\<lparr>dir = ''/apex/com.android.tethering/etc/bpf/netd_readonly/'', prefix = ''netd_readonly/''\<rparr>,
         \<lparr>dir = ''/apex/com.android.tethering/etc/bpf/net_shared/'', prefix = ''net_shared/''\<rparr>,
         \<lparr>dir = ''/apex/com.android.tethering/etc/bpf/net_private/'', prefix = ''net_private/''\<rparr>]"
    by (simp add: locations_def netd_shared_def)
  have ok: "\<forall>l\<in>set [\<lparr>dir = ''/apex/com.android.tethering/etc/bpf/'', prefix = ''tethering/''\<rparr>].
              fst (loadAllElfObjects device_bad_object l) = 0"
    by (simp add: loadAllElfObjects_def device_bad_object_def device_def netd_shared_def)
  have bad: "fst (loadAllElfObjects device_bad_object netd_shared) \<noteq> 0"
    by code_simp
  have later: "\<lparr>dir = ''/apex/com.android.tethering/etc/bpf/netd_readonly/'', prefix = ''netd_readonly/''\<rparr>
      \<in> set [\<lparr>dir = ''/apex/com.android.tethering/etc/bpf/netd_readonly/'', prefix = ''netd_readonly/''\<rparr>,
         \<lparr>dir = ''/apex/com.android.tethering/etc/bpf/net_shared/'', prefix = ''net_shared/''\<rparr>,
         \<lparr>dir = ''/apex/com.android.tethering/etc/bpf/net_private/'', prefix = ''net_private/''\<rparr>]"
    by simp
  from critical_load_failure_exits_2 [OF reach split ok bad]
  have a: "fst (main device_bad_object boot_world) =
             (Exited 2,
              snd (fst (main_pinned device_bad_object boot_world))
              @ concat (map (\<lambda>l. snd (loadAllElfObjects device_bad_object l))
                  ([\<lparr>dir = ''/apex/com.android.tethering/etc/bpf/'', prefix = ''tethering/''\<rparr>]
                   @ [netd_shared]))
              @ [Log ERROR ''=== CRITICAL FAILURE LOADING BPF PROGRAMS FROM %s ==='',
               Log ERROR ''If this triggers reliably, you're probably missing kernel options or patches.'',
               Log ERROR ''If this triggers randomly, you might be hitting some memory allocation problems or startup script race.'',
               Log ERROR ''--- DO NOT EXPECT SYSTEM TO BOOT SUCCESSFULLY ---'',
               Sleep 20])"
    and b: "Opendir (dir \<lparr>dir = ''/apex/com.android.tethering/etc/bpf/netd_readonly/'',
                            prefix = ''netd_readonly/''\<rparr>)
              \<notin> set (snd (fst (main device_bad_object boot_world)))"
    using later by blast+
  from a have "fst (fst (main device_bad_object boot_world)) = Exited 2" by simp
  moreover from b have "Opendir ''/apex/com.android.tethering/etc/bpf/netd_readonly/''
      \<notin> set (snd (fst (main device_bad_object boot_world)))" by simp
  moreover from a have "Log ERROR ''=== CRITICAL FAILURE LOADING BPF PROGRAMS FROM %s ===''
      \<in> set (snd (fst (main device_bad_object boot_world)))" by simp
  moreover from a have "Log ERROR ''--- DO NOT EXPECT SYSTEM TO BOOT SUCCESSFULLY ---''
      \<in> set (snd (fst (main device_bad_object boot_world)))" by simp
  moreover from a have "last (snd (fst (main device_bad_object boot_world))) = Sleep 20" by simp
  ultimately show ?thesis by blast
qed

subsection \<open>The Sanity Check\<close>

text \<open>
  Claim C9. When the run has created the pin directories and every location loads with
  result 0, the next two events are the creation of an array map with keys and values of
  4 bytes and 2 entries, and the write of value 123 at key 1. When that write does not
  return 0 the process exits with code 1, which is not the code 2 of a critical load
  failure, the error line is the last event, and no program is executed in the whole run.
\<close>

theorem sanity_check_failure_exits_1:
  assumes reach: "fst (fst (main_pinned e w)) = Running"
    and loaded: "\<forall>l\<in>set locations. fst (loadAllElfObjects e l) = 0"
  shows "fst (fst (main_loaded e w)) = Running
       \<and> take 2 (drop (length (snd (fst (main_loaded e w)))) (snd (fst (main e w))))
           = [CreateMap BPF_MAP_TYPE_ARRAY 4 4 2 0,
              WriteToMapEntry (createMap e BPF_MAP_TYPE_ARRAY 4 4 2 0) 1 123 BPF_ANY]
       \<and> (writeToMapEntry e (createMap e BPF_MAP_TYPE_ARRAY 4 4 2 0) 1 123 BPF_ANY \<noteq> 0
           \<longrightarrow> fst (main e w) =
                 (Exited 1,
                  snd (fst (main_loaded e w))
                  @ [CreateMap BPF_MAP_TYPE_ARRAY 4 4 2 0,
                     WriteToMapEntry (createMap e BPF_MAP_TYPE_ARRAY 4 4 2 0) 1 123 BPF_ANY,
                     Log ERROR ''Critical kernel bug - failure to write into index 1 of 2 element bpf map array.''])
               \<and> fst (fst (main e w)) \<noteq> Exited 2
               \<and> (\<forall>p. Execve p \<notin> set (snd (fst (main e w)))))"
proof -
  let ?loads = "concat (map (\<lambda>l. snd (loadAllElfObjects e l)) locations)"
  let ?fd = "createMap e BPF_MAP_TYPE_ARRAY 4 4 2 0"
  let ?w = "writeToMapEntry e ?fd 1 123 BPF_ANY"
  have l: "load_locations e locations = (Running, ?loads)"
    using loaded by (rule load_locations_succeeds)
  have ld: "fst (main_loaded e w) = (Running, snd (fst (main_pinned e w)) @ ?loads)"
    using reach l by (simp add: main_loaded_def case_prod_beta andThen_Running)
  have m: "fst (main e w) = (fst (andThen (sanity_check e) (handoff e)),
             snd (fst (main_loaded e w)) @ snd (andThen (sanity_check e) (handoff e)))"
    using ld by (simp add: main_def case_prod_beta andThen_Running)
  have first: "take 2 (snd (andThen (sanity_check e) (handoff e)))
                 = [CreateMap BPF_MAP_TYPE_ARRAY 4 4 2 0, WriteToMapEntry ?fd 1 123 BPF_ANY]"
    by (simp add: andThen_def sanity_check_def sizeof_int_def Let_def)
  have early: "\<forall>ev\<in>set (snd (fst (main_pinned e w))). early_event ev"
    using reach by (rule main_pinned_early)
  have before: "Execve p \<notin> set (snd (fst (main_loaded e w)))" for p
  proof
    assume "Execve p \<in> set (snd (fst (main_loaded e w)))"
    then consider "Execve p \<in> set (snd (fst (main_pinned e w)))" | "Execve p \<in> set ?loads"
      unfolding ld by auto
    then show False
    proof cases
      case 1
      with early early_not_late [of "Execve p"] show False by auto
    next
      case 2
      then obtain l' where "Execve p \<in> set (snd (loadAllElfObjects e l'))" by auto
      with loadAllElfObjects_events [of "Execve p" e l'] show False by simp
    qed
  qed
  have failed: "andThen (sanity_check e) (handoff e) =
      (Exited 1, [CreateMap BPF_MAP_TYPE_ARRAY 4 4 2 0, WriteToMapEntry ?fd 1 123 BPF_ANY,
         Log ERROR ''Critical kernel bug - failure to write into index 1 of 2 element bpf map array.''])"
    if "?w \<noteq> 0"
    using that by (simp add: andThen_def sanity_check_def sizeof_int_def Let_def)
  show ?thesis
    using ld m first before failed by auto
qed

theorem sanity_check_failure_exits_1_witness:
  "fst (fst (main device_map_broken boot_world)) = Exited 1
   \<and> Execve platformBpfLoader \<notin> set (snd (fst (main device_map_broken boot_world)))"
proof -
  have reach: "fst (fst (main_pinned device_map_broken boot_world)) = Running"
    by code_simp
  have loaded: "\<forall>l\<in>set locations. fst (loadAllElfObjects device_map_broken l) = 0"
    by (simp add: locations_def loadAllElfObjects_def device_map_broken_def device_def)
  have broken: "writeToMapEntry device_map_broken
                  (createMap device_map_broken BPF_MAP_TYPE_ARRAY 4 4 2 0) 1 123 BPF_ANY \<noteq> 0"
    by (simp add: device_map_broken_def)
  from sanity_check_failure_exits_1 [OF reach loaded] broken
  have a: "fst (main device_map_broken boot_world) =
             (Exited 1,
              snd (fst (main_loaded device_map_broken boot_world))
              @ [CreateMap BPF_MAP_TYPE_ARRAY 4 4 2 0,
                 WriteToMapEntry (createMap device_map_broken BPF_MAP_TYPE_ARRAY 4 4 2 0) 1 123 BPF_ANY,
                 Log ERROR ''Critical kernel bug - failure to write into index 1 of 2 element bpf map array.''])"
    and b: "\<forall>p. Execve p \<notin> set (snd (fst (main device_map_broken boot_world)))"
    by blast+
  from a have "fst (fst (main device_map_broken boot_world)) = Exited 1" by simp
  with b show ?thesis by blast
qed

subsection \<open>The Kernel Capability Gate\<close>

lemma older_kernel:
  "\<not> isAtLeastKernelVersion e 4 14 0 \<Longrightarrow> \<not> isAtLeastKernelVersion e 6 2 0"
  by (auto simp add: isAtLeastKernelVersion_def split: prod.splits)

text \<open>
  Claim C3, as amended. A device at or above T with a kernel below 4.9 is warned, and so
  is a device at or above U with a kernel below 4.14; the warnings do not stop the gate:
  below V such a device passes, and the gate stops for three reasons only. These are a
  device at or above V with a kernel below 4.19, a device at or above V with an x86 kernel
  that is not 64-bit, and 32-bit userspace on a kernel at or above 6.2; each exits with
  code 1. A kernel at or above every applicable threshold makes the gate a no-op when
  neither of the two combined constraints is violated.
\<close>

theorem kernel_gate_severity:
  "(isAtLeastT e \<and> \<not> isAtLeastKernelVersion e 4 9 0
      \<longrightarrow> Log WARN ''Android T requires kernel 4.9.'' \<in> set (snd (kernel_gate e)))
   \<and> (isAtLeastU e \<and> \<not> isAtLeastKernelVersion e 4 14 0
      \<longrightarrow> Log WARN ''Android U requires kernel 4.14.'' \<in> set (snd (kernel_gate e)))
   \<and> (\<not> isAtLeastV e \<and> \<not> isAtLeastKernelVersion e 4 14 0 \<longrightarrow> fst (kernel_gate e) = Running)
   \<and> (isAtLeastV e \<and> \<not> isAtLeastKernelVersion e 4 19 0 \<longrightarrow> fst (kernel_gate e) = Exited 1)
   \<and> (isAtLeastV e \<and> isX86 e \<and> \<not> isKernel64Bit e \<longrightarrow> fst (kernel_gate e) = Exited 1)
   \<and> (isUserspace32bit e \<and> isAtLeastKernelVersion e 6 2 0 \<longrightarrow> fst (kernel_gate e) = Exited 1)
   \<and> (fst (kernel_gate e) \<noteq> Running \<longrightarrow>
        isAtLeastV e \<and> \<not> isAtLeastKernelVersion e 4 19 0
        \<or> isAtLeastV e \<and> isX86 e \<and> \<not> isKernel64Bit e
        \<or> isUserspace32bit e \<and> isAtLeastKernelVersion e 6 2 0)
   \<and> (meets_thresholds e \<and> \<not> (isAtLeastV e \<and> isX86 e \<and> \<not> isKernel64Bit e)
        \<and> \<not> (isUserspace32bit e \<and> isAtLeastKernelVersion e 6 2 0)
      \<longrightarrow> kernel_gate e = (Running, []))"
  using older_kernel [of e]
  by (simp add: kernel_gate_def meets_thresholds_def Let_def)

theorem kernel_gate_severity_witness:
  "Log WARN ''Android U requires kernel 4.14.'' \<in> set (snd (kernel_gate device_u_old_kernel))
   \<and> fst (kernel_gate device_u_old_kernel) = Running
   \<and> fst (kernel_gate device_32bit_userspace) = Exited 1
   \<and> kernel_gate device = (Running, [])"
  using kernel_gate_severity [of device_u_old_kernel]
        kernel_gate_severity [of device_32bit_userspace]
        kernel_gate_severity [of device]
  by (simp add: device_u_old_kernel_def device_32bit_userspace_def device_def meets_thresholds_def
        isAtLeastT_def isAtLeastU_def isAtLeastV_def isAtLeastKernelVersion_def
        ANDROID_API_T_def ANDROID_API_U_def ANDROID_API_V_def)

text \<open>
  Claim C3, as stated, lets every kernel at or above the applicable thresholds pass. A
  device with Android V, a 6.6 kernel and 32-bit userspace meets the three thresholds, and
  the gate exits with code 1.
\<close>

theorem kernel_gate_counterexample:
  "\<not> (meets_thresholds device_32bit_userspace
        \<longrightarrow> kernel_gate device_32bit_userspace = (Running, []))"
  by (simp add: device_32bit_userspace_def device_def meets_thresholds_def kernel_gate_def
        isAtLeastT_def isAtLeastU_def isAtLeastV_def isAtLeastKernelVersion_def
        ANDROID_API_T_def ANDROID_API_U_def ANDROID_API_V_def)

subsection \<open>The Sysctl Tuner\<close>

text \<open>
  Claim C4. On a run that reaches the tuner on a device at or above U, where the three
  writes are attempted: a write that does not return 0 ends the process with exit code 1
  when the kernel is at or above the minimum version of the knob (5.13 for
  \<^verbatim>\<open>unprivileged_bpf_disabled\<close>, 4.14 for \<^verbatim>\<open>bpf_jit_enable\<close> and
  \<^verbatim>\<open>bpf_jit_kallsyms\<close>); when every write that fails does so on a kernel below the
  minimum version of its knob, all three writes are attempted and the run goes on.
\<close>

theorem sysctl_tuner_tolerates_old_kernels:
  assumes "fst (main_gated e) = Running" and "isAtLeastU e"
  shows "(fst (writeProcSysFile e ''/proc/sys/kernel/unprivileged_bpf_disabled'' ''0\<newline>'') \<noteq> 0
            \<and> isAtLeastKernelVersion e 5 13 0
          \<longrightarrow> fst (fst (main e w)) = Exited 1)
       \<and> (fst (writeProcSysFile e ''/proc/sys/net/core/bpf_jit_enable'' ''1\<newline>'') \<noteq> 0
            \<and> isAtLeastKernelVersion e 4 14 0
          \<longrightarrow> fst (fst (main e w)) = Exited 1)
       \<and> (fst (writeProcSysFile e ''/proc/sys/net/core/bpf_jit_kallsyms'' ''1\<newline>'') \<noteq> 0
            \<and> isAtLeastKernelVersion e 4 14 0
          \<longrightarrow> fst (fst (main e w)) = Exited 1)
       \<and> ((fst (writeProcSysFile e ''/proc/sys/kernel/unprivileged_bpf_disabled'' ''0\<newline>'') \<noteq> 0
              \<longrightarrow> \<not> isAtLeastKernelVersion e 5 13 0)
          \<and> (fst (writeProcSysFile e ''/proc/sys/net/core/bpf_jit_enable'' ''1\<newline>'') \<noteq> 0
              \<longrightarrow> \<not> isAtLeastKernelVersion e 4 14 0)
          \<and> (fst (writeProcSysFile e ''/proc/sys/net/core/bpf_jit_kallsyms'' ''1\<newline>'') \<noteq> 0
              \<longrightarrow> \<not> isAtLeastKernelVersion e 4 14 0)
          \<longrightarrow> fst (main_tuned e) = Running
            \<and> snd (sysctl_tuner e) =
                snd (writeProcSysFile e ''/proc/sys/kernel/unprivileged_bpf_disabled'' ''0\<newline>'')
                @ snd (writeProcSysFile e ''/proc/sys/net/core/bpf_jit_enable'' ''1\<newline>'')
                @ snd (writeProcSysFile e ''/proc/sys/net/core/bpf_jit_kallsyms'' ''1\<newline>''))"
proof -
  let ?w1 = "writeProcSysFile e ''/proc/sys/kernel/unprivileged_bpf_disabled'' ''0\<newline>''"
  let ?w2 = "writeProcSysFile e ''/proc/sys/net/core/bpf_jit_enable'' ''1\<newline>''"
  let ?w3 = "writeProcSysFile e ''/proc/sys/net/core/bpf_jit_kallsyms'' ''1\<newline>''"
  have fatal: "fst (sysctl_tuner e) = Exited 1"
    if "fst ?w1 \<noteq> 0 \<and> isAtLeastKernelVersion e 5 13 0
        \<or> fst ?w2 \<noteq> 0 \<and> isAtLeastKernelVersion e 4 14 0
        \<or> fst ?w3 \<noteq> 0 \<and> isAtLeastKernelVersion e 4 14 0"
    using that assms(2) by (auto simp add: sysctl_tuner_def case_prod_beta)
  have tolerated: "sysctl_tuner e = (Running, snd ?w1 @ snd ?w2 @ snd ?w3)"
    if "(fst ?w1 \<noteq> 0 \<longrightarrow> \<not> isAtLeastKernelVersion e 5 13 0)
        \<and> (fst ?w2 \<noteq> 0 \<longrightarrow> \<not> isAtLeastKernelVersion e 4 14 0)
        \<and> (fst ?w3 \<noteq> 0 \<longrightarrow> \<not> isAtLeastKernelVersion e 4 14 0)"
    using that assms(2) by (auto simp add: sysctl_tuner_def case_prod_beta)
  have go: "fst (main_tuned e) = fst (sysctl_tuner e)"
    using assms(1) by (simp add: main_tuned_def andThen_Running)
  show ?thesis
    using fatal tolerated go main_exits_in_tuner [OF assms(1), of 1 w] by auto
qed

theorem sysctl_tuner_tolerates_old_kernels_witness:
  "fst (fst (main device_no_knobs boot_world)) = Exited 1
   \<and> fst (main_tuned device_u_old_kernel_no_knobs) = Running"
proof -
  have reach: "fst (main_gated device_no_knobs) = Running"
    by code_simp
  have u: "isAtLeastU device_no_knobs"
    by (simp add: isAtLeastU_def ANDROID_API_U_def device_no_knobs_def device_def)
  have reach': "fst (main_gated device_u_old_kernel_no_knobs) = Running"
    by code_simp
  have u': "isAtLeastU device_u_old_kernel_no_knobs"
    by (simp add: isAtLeastU_def ANDROID_API_U_def device_u_old_kernel_no_knobs_def
          device_u_old_kernel_def device_def)
  from sysctl_tuner_tolerates_old_kernels [OF reach u, of boot_world]
       sysctl_tuner_tolerates_old_kernels [OF reach' u', of boot_world]
  show ?thesis
    by (simp add: writeProcSysFile_def isAtLeastKernelVersion_def ENOENT_def device_no_knobs_def
          device_u_old_kernel_no_knobs_def device_u_old_kernel_def device_def)
qed

subsection \<open>The Pin-Directory Manager\<close>

lemma mode_bits: "S_ISVTX OR S_IRWXU OR S_IRWXG OR S_IRWXO = 1023"
  by (simp add: S_ISVTX_def S_IRWXU_def S_IRWXG_def S_IRWXO_def)

text \<open>
  Claim C5. A second call of \<^verbatim>\<open>createSysFsBpfSubDir\<close> with the same prefix leaves the
  directories, their permission bits and the umask as the first call left them, and
  returns 0 when the first call did. A directory that was not there is created with mode
  01777 (1023), whatever the umask. A \<^verbatim>\<open>mkdir\<close> that fails with \<open>EEXIST\<close> gives the
  result 0; one that fails with another error number gives its negation, which is
  negative.
\<close>

theorem createSysFsBpfSubDir_idempotent:
  "snd (snd (createSysFsBpfSubDir e p (snd (snd (createSysFsBpfSubDir e p w)))))
     = snd (snd (createSysFsBpfSubDir e p w))
   \<and> (fst (createSysFsBpfSubDir e p w) = 0
        \<longrightarrow> fst (createSysFsBpfSubDir e p (snd (snd (createSysFsBpfSubDir e p w)))) = 0)
   \<and> (p \<noteq> [] \<and> mkdir_err e (''/sys/fs/bpf/'' @ p) = None \<and> dirs w (''/sys/fs/bpf/'' @ p) = None
        \<longrightarrow> fst (createSysFsBpfSubDir e p w) = 0
          \<and> dirs (snd (snd (createSysFsBpfSubDir e p w))) = (dirs w)(''/sys/fs/bpf/'' @ p \<mapsto> 1023))
   \<and> (p \<noteq> [] \<and> fst (sys_mkdir e (''/sys/fs/bpf/'' @ p) 1023 (snd (sys_umask 0 w))) = Some EEXIST
        \<longrightarrow> fst (createSysFsBpfSubDir e p w) = 0)
   \<and> (\<forall>err. p \<noteq> [] \<and> fst (sys_mkdir e (''/sys/fs/bpf/'' @ p) 1023 (snd (sys_umask 0 w))) = Some err
          \<and> err \<noteq> EEXIST
        \<longrightarrow> fst (createSysFsBpfSubDir e p w) = - err \<and> (0 < err \<longrightarrow> fst (createSysFsBpfSubDir e p w) < 0))"
  by (auto simp add: createSysFsBpfSubDir_def sys_umask_def sys_mkdir_def mode_bits Let_def and.assoc
        split: option.splits if_splits)

theorem createSysFsBpfSubDir_idempotent_witness:
  "fst (createSysFsBpfSubDir device ''loader'' boot_world) = 0
   \<and> dirs (snd (snd (createSysFsBpfSubDir device ''loader'' boot_world)))
       = [''/sys/fs/bpf/loader'' \<mapsto> 1023]
   \<and> createSysFsBpfSubDir device ''loader''
         (snd (snd (createSysFsBpfSubDir device ''loader'' boot_world)))
       = (0, [Umask 0, Mkdir ''/sys/fs/bpf/loader'' 1023, Umask 18],
          snd (snd (createSysFsBpfSubDir device ''loader'' boot_world)))
   \<and> fst (createSysFsBpfSubDir device_mkdir_denied ''loader'' boot_world) = - 13"
  using createSysFsBpfSubDir_idempotent [of device "''loader''" boot_world]
        createSysFsBpfSubDir_idempotent [of device_mkdir_denied "''loader''" boot_world]
  by (simp add: createSysFsBpfSubDir_def sys_mkdir_def sys_umask_def mode_bits boot_world_def
        device_mkdir_denied_def device_def EEXIST_def EACCES_def Let_def)

text \<open>
  The umask around the creation. When \<^verbatim>\<open>mkdir\<close> succeeds or fails with \<open>EEXIST\<close>, the
  umask is the one on entry again; when it fails with another error the function returns
  before the second call of \<^verbatim>\<open>umask\<close>, and the umask stays 0.
\<close>

lemma createSysFsBpfSubDir_restores_umask:
  assumes "fst (sys_mkdir e (''/sys/fs/bpf/'' @ p) 1023 (snd (sys_umask 0 w))) \<in> {None, Some EEXIST}"
    and "umask w AND 511 = umask w"
  shows "umask (snd (snd (createSysFsBpfSubDir e p w))) = umask w"
  using assms
  by (auto simp add: createSysFsBpfSubDir_def sys_umask_def sys_mkdir_def mode_bits Let_def
        split: option.splits if_splits)

lemma createSysFsBpfSubDir_failure_umask:
  assumes "p \<noteq> []"
    and "fst (sys_mkdir e (''/sys/fs/bpf/'' @ p) 1023 (snd (sys_umask 0 w))) = Some err"
    and "err \<noteq> EEXIST"
  shows "umask (snd (snd (createSysFsBpfSubDir e p w))) = 0"
  using assms
  by (auto simp add: createSysFsBpfSubDir_def sys_umask_def sys_mkdir_def mode_bits Let_def
        split: option.splits if_splits)

text \<open>
  Claim C6 does not hold of the code on the failure path. On a device where \<^verbatim>\<open>mkdir\<close>
  is refused with \<open>EACCES\<close>, a process that enters \<^verbatim>\<open>createSysFsBpfSubDir\<close> with umask
  022 (18) leaves it with result \<open>- EACCES\<close> and umask 0: the events show the first call of
  \<^verbatim>\<open>umask\<close> and no second one.
\<close>

theorem createSysFsBpfSubDir_failure_leaves_umask_cleared:
  "umask boot_world = 18
   \<and> createSysFsBpfSubDir device_mkdir_denied ''tethering/'' boot_world
       = (- 13,
          [Umask 0, Mkdir ''/sys/fs/bpf/tethering/'' 1023,
           Log ERROR ''Failed to create directory: %s, ret: %s''],
          boot_world\<lparr>umask := 0\<rparr>)"
  by (simp add: createSysFsBpfSubDir_def sys_mkdir_def sys_umask_def mode_bits boot_world_def
        device_mkdir_denied_def device_def EEXIST_def EACCES_def)

subsection \<open>The probe of the init scripts\<close>

text \<open>
  Claim C10. \<^verbatim>\<open>exists\<close> answers true exactly when \<^verbatim>\<open>access\<close> succeeds, false exactly
  when it fails with \<open>ENOENT\<close>, and aborts exactly when it fails with another error
  number, the fatal line being the last thing it does. \<^verbatim>\<open>main\<close> aborts with it: when
  one of the two probes of the init scripts aborts, the process is aborted and the fatal
  line is its last event.
\<close>

theorem exists_aborts_unless_ENOENT:
  "(fst (exists e path) = Some True \<longleftrightarrow> access e path = None) \<and>
   (fst (exists e path) = Some False \<longleftrightarrow> access e path = Some ENOENT) \<and>
   (fst (exists e path) = None \<longleftrightarrow> (\<exists>errno. access e path = Some errno \<and> errno \<noteq> ENOENT)) \<and>
   (fst (exists e path) = None \<longrightarrow>
      last (snd (exists e path)) = Log ERROR ''FATAL: access(%s, F_OK) -> %d [%d:%s]'') \<and>
   (fst (exists e ''/system/etc/init/bpfloader.rc'') = None
      \<or> fst (exists e ''/system/etc/init/bpfloader.rc'') \<noteq> None
         \<and> fst (exists e ''/system/etc/init/netbpfload.rc'') = None
    \<longrightarrow> fst (fst (main e w)) = Aborted
      \<and> last (snd (fst (main e w))) = Log ERROR ''FATAL: access(%s, F_OK) -> %d [%d:%s]'')"
proof -
  have a: "(fst (exists e path) = Some True \<longleftrightarrow> access e path = None) \<and>
   (fst (exists e path) = Some False \<longleftrightarrow> access e path = Some ENOENT) \<and>
   (fst (exists e path) = None \<longleftrightarrow> (\<exists>errno. access e path = Some errno \<and> errno \<noteq> ENOENT))"
    by (auto simp add: exists_def split: option.splits)
  have b: "last (snd (exists e p)) = Log ERROR ''FATAL: access(%s, F_OK) -> %d [%d:%s]''"
    if "fst (exists e p) = None" for p
    using that by (auto simp add: exists_def split: option.splits if_splits)
  have ne: "snd (exists e p) \<noteq> []" for p
    by (auto simp add: exists_def split: option.splits)
  have c: "fst (fst (main e w)) = Aborted
      \<and> last (snd (fst (main e w))) = Log ERROR ''FATAL: access(%s, F_OK) -> %d [%d:%s]''"
    if h: "fst (exists e ''/system/etc/init/bpfloader.rc'') = None
      \<or> fst (exists e ''/system/etc/init/bpfloader.rc'') \<noteq> None
         \<and> fst (exists e ''/system/etc/init/netbpfload.rc'') = None"
  proof -
    have p: "fst (probe_init_scripts e) = None
           \<and> last (snd (probe_init_scripts e)) = Log ERROR ''FATAL: access(%s, F_OK) -> %d [%d:%s]''"
      using h b [of "''/system/etc/init/bpfloader.rc''"] b [of "''/system/etc/init/netbpfload.rc''"]
        ne [of "''/system/etc/init/bpfloader.rc''"] ne [of "''/system/etc/init/netbpfload.rc''"]
      by (cases "exists e ''/system/etc/init/bpfloader.rc''";
          cases "exists e ''/system/etc/init/netbpfload.rc''")
         (auto simp add: probe_init_scripts_def split: option.splits)
    then have "main_resolved e = (Aborted, snd (probe_init_scripts e))"
      by (simp add: main_resolved_aborted)
    with p main_after_abort [of e w] show ?thesis by simp
  qed
  from a b [of path] c show ?thesis by blast
qed

theorem exists_aborts_unless_ENOENT_witness:
  "fst (exists device_rc_unreadable ''/system/etc/init/bpfloader.rc'') = None
   \<and> fst (fst (main device_rc_unreadable boot_world)) = Aborted
   \<and> fst (exists device ''/system/etc/init/bpfloader.rc'') = Some False
   \<and> fst (exists device ''/system/etc/init/netbpfload.rc'') = Some True"
  using exists_aborts_unless_ENOENT [of device_rc_unreadable "''/system/etc/init/bpfloader.rc''" boot_world]
        exists_aborts_unless_ENOENT [of device "''/system/etc/init/bpfloader.rc''" boot_world]
        exists_aborts_unless_ENOENT [of device "''/system/etc/init/netbpfload.rc''" boot_world]
  by (simp add: device_rc_unreadable_def device_def ENOENT_def EACCES_def)

end
